theory Spec2Isabelle
  imports Main
begin

section \<open>Employee reminders (erpnext/hr/doctype/employee/employee\_reminders.py)\<close>

text \<open>
  A shallow embedding of the reminder module. The module is orchestration over four
  collaborators: the settings store, the employee table, the holiday store and the mail
  sender. They are gathered in the record \<open>env\<close>; every call that can raise returns a
  sum (\<open>Inl\<close> the exception), and the only state is the outbox, the list of mails handed
  to \<open>frappe.sendmail\<close> so far.
\<close>

subsection \<open>Python values\<close>

text \<open>A nullable text column: \<open>None\<close> or a string.\<close>

type_synonym addr = "string option"

text \<open>Python truthiness of a nullable string: \<open>None\<close> and \<open>""\<close> are falsy.\<close>

fun truthy :: "addr \<Rightarrow> bool" where
  "truthy None = False"
| "truthy (Some s) = (s \<noteq> [])"

text \<open>\<open>a or b\<close>: the first operand when it is truthy, the second otherwise.\<close>

definition py_or :: "addr \<Rightarrow> addr \<Rightarrow> addr" where
  "py_or a b = (if truthy a then a else b)"

text \<open>
  \<open>int(v or d)\<close> for the value \<open>v\<close> of a Check field (an integer, or \<open>None\<close> when the
  field was never saved): \<open>None\<close> and \<open>0\<close> are both falsy, so both yield the default.
\<close>

definition int_or :: "int option \<Rightarrow> int \<Rightarrow> int" where
  "int_or v d = (case v of None \<Rightarrow> d | Some n \<Rightarrow> if n = 0 then d else n)"

text \<open>Decimal rendering of an integer, as an f-string does (\<open>str(n)\<close>).\<close>

definition digit_char :: "nat \<Rightarrow> char" where
  "digit_char n = ''0123456789'' ! n"

fun str_nat :: "nat \<Rightarrow> string" where
  "str_nat n = (if n < 10 then [digit_char n] else str_nat (n div 10) @ [digit_char (n mod 10)])"

declare str_nat.simps [simp del]

definition str_int :: "int \<Rightarrow> string" where
  "str_int i = (if i < 0 then CHR ''-'' # str_nat (nat (- i)) else str_nat (nat i))"

text \<open>\<open>", ".join(xs)\<close>.\<close>

fun join_comma :: "string list \<Rightarrow> string" where
  "join_comma [] = []"
| "join_comma [x] = x"
| "join_comma (x # y # ys) = x @ '', '' @ join_comma (y # ys)"

text \<open>
  \<open>frappe.utils.comma_sep(some_list, pattern, add_quotes=False)\<close>, a library function:
  the empty string for an empty list, the element itself for a singleton, and otherwise
  the pattern \<open>"{0} <word> {1}"\<close> filled with the comma-joined front and the last element
  (the source comment: \<open>["Jim", "Rim", "Dim"]\<close> becomes \<open>Jim, Rim & Dim\<close>). The pattern is
  given by its connecting word; translations are the identity (no locale installed), so
  \<open>frappe._\<close> leaves every string as it is.
\<close>

definition comma_sep :: "string list \<Rightarrow> string \<Rightarrow> string" where
  "comma_sep some_list word =
     (if some_list = [] then []
      else if length some_list = 1 then hd some_list
      else join_comma (butlast some_list) @ '' '' @ word @ '' '' @ last some_list)"

text \<open>\<open>frappe.utils.comma_and(some_list, add_quotes=False)\<close>: pattern \<open>"{0} and {1}"\<close>.\<close>

definition comma_and :: "string list \<Rightarrow> string" where
  "comma_and some_list = comma_sep some_list ''and''"

subsection \<open>Dates\<close>

record date =
  year :: int
  month :: nat
  day :: nat

definition is_leap :: "int \<Rightarrow> bool" where
  "is_leap y = (y mod 4 = 0 \<and> (y mod 100 \<noteq> 0 \<or> y mod 400 = 0))"

definition days_in_month :: "int \<Rightarrow> nat \<Rightarrow> nat" where
  "days_in_month y m =
     (if m = 2 then (if is_leap y then 29 else 28)
      else if m = 4 \<or> m = 6 \<or> m = 9 \<or> m = 11 then 30 else 31)"

definition next_day :: "date \<Rightarrow> date" where
  "next_day d =
     (if day d < days_in_month (year d) (month d) then d\<lparr>day := day d + 1\<rparr>
      else if month d < 12 then d\<lparr>month := month d + 1, day := 1\<rparr>
      else \<lparr>year = year d + 1, month = 1, day = 1\<rparr>)"

datatype error =
    TypeError
  | AttributeError
  | DataStoreError
  | MailSendError
  | DoesNotExistError

text \<open>The date \<open>n\<close> days after \<open>d\<close>.\<close>

fun days_later :: "date \<Rightarrow> nat \<Rightarrow> date" where
  "days_later d 0 = d"
| "days_later d (Suc n) = days_later (next_day d) n"

text \<open>
  \<open>frappe.utils.add_days(date, days)\<close>, a library function with two required positional
  parameters; the argument \<open>days\<close> is \<open>None\<close> here when the call site does not pass it,
  which Python answers with a \<open>TypeError\<close>. The module only adds a non-negative number of
  days.
\<close>

definition add_days :: "date \<Rightarrow> nat option \<Rightarrow> error + date" where
  "add_days d days = (case days of None \<Rightarrow> Inl TypeError | Some n \<Rightarrow> Inr (days_later d n))"

text \<open>
  \<open>frappe.utils.add_months(date, months)\<close>: the month moves on and the day is clipped to
  the length of the month reached.
\<close>

definition add_months :: "date \<Rightarrow> nat \<Rightarrow> date" where
  "add_months d k =
     (let t = month d - 1 + k;
          y = year d + int (t div 12);
          m = t mod 12 + 1
      in \<lparr>year = y, month = m, day = min (day d) (days_in_month y m)\<rparr>)"

subsection \<open>Data model\<close>

text \<open>
  A row of \<open>tabEmployee\<close>, with the columns the module reads. \<open>e_id\<close> is the primary key
  (the column \<open>name\<close>); date of birth and of joining are mandatory columns.
\<close>

record employee =
  e_id :: string
  e_employee_name :: string
  e_company :: addr
  e_personal_email :: addr
  e_company_email :: addr
  e_user_id :: addr
  e_image :: addr
  e_date_of_birth :: date
  e_date_of_joining :: date
  e_status :: string

text \<open>
  The dictionary the event query selects for an employee (the MariaDB statement):
  \<open>employee_name\<close> is selected under the key \<open>name\<close>, and the primary key is not selected.
  Python compares two such dictionaries by their values.
\<close>

record person =
  personal_email :: addr
  company :: addr
  company_email :: addr
  user_id :: addr
  name :: string
  image :: addr
  date_of_joining :: date

record holiday =
  holiday_date :: date
  description :: string

text \<open>
  The \<open>recipients\<close> argument of \<open>frappe.sendmail\<close>: the module passes a list in the group
  mails and a bare address in the mails to people who share an event.
\<close>

datatype recipients = RList "addr list" | ROne addr

datatype mail_args =
    HolidayArgs string string
  | PersonArgs string "person list" string

record mail =
  m_recipients :: recipients
  m_subject :: string
  m_template :: string
  m_args :: mail_args
  m_header :: string

text \<open>
  A call of \<open>get_holidays_for_employee\<close> as the call site writes it: the positional
  arguments in order, and the two keyword arguments.
\<close>

datatype argval = ArgStr string | ArgDate date

record holiday_query =
  q_positional :: "argval list"
  q_only_non_weekly :: bool
  q_raise_exception :: bool

text \<open>
  The collaborators. \<open>check_setting\<close> and \<open>select_setting\<close> are
  \<open>frappe.db.get_single_value("HR Settings", f)\<close> for a Check and a Select field;
  \<open>is_holiday\<close> is called with \<open>only_non_weekly=True, with_description=True,
  raise_exception=False\<close>; \<open>sendmail_error\<close> says whether \<open>frappe.sendmail\<close> raises on a
  mail. \<open>is_holiday\<close>, \<open>get_all_employee_emails\<close> and \<open>get_holidays_for_employee\<close> live in
  modules of the repository that the reminder module imports.
\<close>

record env =
  check_setting :: "string \<Rightarrow> int option"
  select_setting :: "string \<Rightarrow> string option"
  tabEmployee :: "employee list"
  today :: date
  is_holiday :: "string \<Rightarrow> error + (bool \<times> string list)"
  get_all_employee_emails :: "addr \<Rightarrow> error + addr list"
  get_holidays_for_employee :: "holiday_query \<Rightarrow> error + holiday list option"
  sendmail_error :: "mail \<Rightarrow> error option"

text \<open>
  The result of a run over a state \<open>'s\<close> (the outbox, for the three senders of mail):
  it returned, or it raised, with the state at that moment.
\<close>

datatype 's outcome = Done 's | Raised error 's

fun final :: "'s outcome \<Rightarrow> 's" where
  "final (Done s) = s"
| "final (Raised e s) = s"

text \<open>\<open>frappe.sendmail\<close>: the mail is queued unless the sender raises.\<close>

definition sendmail :: "env \<Rightarrow> mail \<Rightarrow> mail list \<Rightarrow> mail list outcome" where
  "sendmail E m out =
     (case sendmail_error E m of None \<Rightarrow> Done (out @ [m]) | Some e \<Rightarrow> Raised e out)"

text \<open>\<open>frappe.db.get_all('Employee', pluck='name')\<close>: the primary keys, with no filter.\<close>

definition get_all_employees :: "env \<Rightarrow> string list" where
  "get_all_employees E = map e_id (tabEmployee E)"

text \<open>\<open>frappe.get_doc('Employee', employee)\<close>.\<close>

definition get_doc :: "env \<Rightarrow> string \<Rightarrow> error + employee" where
  "get_doc E k =
     (case find (\<lambda>r. e_id r = k) (tabEmployee E) of
        None \<Rightarrow> Inl DoesNotExistError
      | Some d \<Rightarrow> Inr d)"

text \<open>
  Modelled from the spec: \<open>get_employee_email\<close> of \<open>erpnext.hr.doctype.employee.employee\<close>
  is imported by the module and is not part of it. The spec resolves an employee's
  address as the user email, else the personal email, else the company email.
\<close>

definition get_employee_email :: "addr \<Rightarrow> addr \<Rightarrow> addr \<Rightarrow> addr" where
  "get_employee_email uid personal cemail = py_or uid (py_or personal cemail)"

subsection \<open>Holiday reminders\<close>

definition get_holiday_reminder_text_and_message :: "string list \<Rightarrow> string \<times> string" where
  "get_holiday_reminder_text_and_message descriptions =
     (let description = (if length descriptions = 1 then hd descriptions
                         else comma_and descriptions);
          reminder_text = ''This email is to remind you about today'' @ [CHR 0x27] @ ''s holiday.'';
          message = ''Holiday is on the occassion of '' @ description @ ''.''
      in (reminder_text, message))"

definition holiday_mail :: "addr \<Rightarrow> string list \<Rightarrow> mail" where
  "holiday_mail employee_email descriptions =
     (let (reminder_text, message) = get_holiday_reminder_text_and_message descriptions
      in \<lparr>m_recipients = RList [employee_email],
          m_subject = ''Holiday Reminder'',
          m_template = ''holiday_reminder'',
          m_args = HolidayArgs reminder_text message,
          m_header = ''Today is a holiday for you.''\<rparr>)"

definition send_holiday_reminder_to_employee ::
  "env \<Rightarrow> string \<Rightarrow> string list \<Rightarrow> mail list \<Rightarrow> mail list outcome" where
  "send_holiday_reminder_to_employee E employee descriptions out =
     (case get_doc E employee of
        Inl e \<Rightarrow> Raised e out
      | Inr employee_doc \<Rightarrow>
          sendmail E
            (holiday_mail
               (get_employee_email (e_user_id employee_doc) (e_personal_email employee_doc)
                  (e_company_email employee_doc))
               descriptions)
            out)"

text \<open>The body of the loop over the employees, and the loop.\<close>

definition holiday_step :: "env \<Rightarrow> string \<Rightarrow> mail list \<Rightarrow> mail list outcome" where
  "holiday_step E employee out =
     (case is_holiday E employee of
        Inl e \<Rightarrow> Raised e out
      | Inr (has_holiday, holiday_descriptions) \<Rightarrow>
          if has_holiday then send_holiday_reminder_to_employee E employee holiday_descriptions out
          else Done out)"

fun holiday_loop :: "env \<Rightarrow> string list \<Rightarrow> mail list \<Rightarrow> mail list outcome" where
  "holiday_loop E [] out = Done out"
| "holiday_loop E (employee # rest) out =
     (case holiday_step E employee out of
        Done out' \<Rightarrow> holiday_loop E rest out'
      | Raised e out' \<Rightarrow> Raised e out')"

definition send_holiday_reminders :: "env \<Rightarrow> mail list \<Rightarrow> mail list outcome" where
  "send_holiday_reminders E out =
     (let to_send = int_or (check_setting E ''send_holiday_reminders'') 1
      in if to_send = 0 then Done out
         else holiday_loop E (get_all_employees E) out)"

subsection \<open>Employees having an event today\<close>

definition to_person :: "employee \<Rightarrow> person" where
  "to_person r =
     \<lparr>personal_email = e_personal_email r, company = e_company r,
      company_email = e_company_email r, user_id = e_user_id r,
      name = e_employee_name r, image = e_image r,
      date_of_joining = e_date_of_joining r\<rparr>"

text \<open>
  The \<open>WHERE\<close> clause: the day and the month of the condition column are those of today,
  and the employee is active.
\<close>

definition has_event_today :: "env \<Rightarrow> (employee \<Rightarrow> date) \<Rightarrow> employee \<Rightarrow> bool" where
  "has_event_today E condition_column r =
     (day (condition_column r) = day (today E)
      \<and> month (condition_column r) = month (today E)
      \<and> e_status r = ''Active'')"

definition event_query :: "env \<Rightarrow> (employee \<Rightarrow> date) \<Rightarrow> person list" where
  "event_query E condition_column =
     map to_person (filter (has_event_today E condition_column) (tabEmployee E))"

text \<open>
  \<open>grouped_employees[key].append(doc)\<close> on a \<open>defaultdict\<close> of lists: the dictionary is an
  association list in insertion order, which is the order \<open>items()\<close> iterates in.
\<close>

fun append_to_group :: "'k \<Rightarrow> 'v \<Rightarrow> ('k \<times> 'v list) list \<Rightarrow> ('k \<times> 'v list) list" where
  "append_to_group k v [] = [(k, [v])]"
| "append_to_group k v ((k', vs) # g) =
     (if k' = k then (k', vs @ [v]) # g else (k', vs) # append_to_group k v g)"

definition group_by_company :: "person list \<Rightarrow> (addr \<times> person list) list" where
  "group_by_company docs = foldl (\<lambda>g employee_doc. append_to_group (company employee_doc) employee_doc g) [] docs"

text \<open>The result is \<open>None\<close> where the Python function returns without a value.\<close>

definition get_employees_having_an_event_today ::
  "env \<Rightarrow> string \<Rightarrow> (addr \<times> person list) list option" where
  "get_employees_having_an_event_today E event_type =
     (if event_type = ''birthday'' then Some (group_by_company (event_query E e_date_of_birth))
      else if event_type = ''work_anniversary'' then
        Some (group_by_company (event_query E e_date_of_joining))
      else None)"

definition get_employees_who_are_born_today :: "env \<Rightarrow> (addr \<times> person list) list option" where
  "get_employees_who_are_born_today E = get_employees_having_an_event_today E ''birthday''"

subsection \<open>Birthday reminders\<close>

text \<open>The characters outside ASCII, as their UTF-8 bytes.\<close>

definition party_popper :: string where
  "party_popper = [CHR 0xF0, CHR 0x9F, CHR 0x8E, CHR 0x89]"

definition birthday_cake :: string where
  "birthday_cake = [CHR 0xF0, CHR 0x9F, CHR 0x8E, CHR 0x82]"

definition confetti_ball :: string where
  "confetti_ball = [CHR 0xF0, CHR 0x9F, CHR 0x8E, CHR 0x8A, CHR 0xEF, CHR 0xB8, CHR 0x8F]"

definition right_quote :: string where
  "right_quote = [CHR 0xE2, CHR 0x80, CHR 0x99]"

definition get_birthday_reminder_text_and_message :: "person list \<Rightarrow> string \<times> string" where
  "get_birthday_reminder_text_and_message birthday_persons =
     (let birthday_person_text =
            (if length birthday_persons = 1 then name (hd birthday_persons)
             else comma_sep (map name birthday_persons) ''&'');
          reminder_text = ''Today is '' @ birthday_person_text @ [CHR 0x27] @ ''s birthday '' @ party_popper;
          message = ''A friendly reminder of an important date for our team.'' @ ''<br>''
            @ ''Everyone, let'' @ right_quote @ ''s congratulate '' @ birthday_person_text
            @ '' on their birthday.''
      in (reminder_text, message))"

definition send_birthday_reminder ::
  "env \<Rightarrow> recipients \<Rightarrow> string \<Rightarrow> person list \<Rightarrow> string \<Rightarrow> mail list \<Rightarrow> mail list outcome" where
  "send_birthday_reminder E recips reminder_text birthday_persons message out =
     sendmail E
       \<lparr>m_recipients = recips,
        m_subject = ''Birthday Reminder'',
        m_template = ''birthday_reminder'',
        m_args = PersonArgs reminder_text birthday_persons message,
        m_header = ''Birthday Reminder '' @ birthday_cake\<rparr>
       out"

text \<open>
  The inner loop, over the people who share a birthday; \<open>birthday_persons\<close> is the whole
  group and the second list is what is left to iterate over. \<open>d != person\<close> compares two
  dictionaries by value.
\<close>

fun shared_birthday_loop ::
  "env \<Rightarrow> person list \<Rightarrow> person list \<Rightarrow> mail list \<Rightarrow> mail list outcome" where
  "shared_birthday_loop E birthday_persons [] out = Done out"
| "shared_birthday_loop E birthday_persons (person # rest) out =
     (let person_email = py_or (user_id person) (py_or (personal_email person) (company_email person));
          others = filter (\<lambda>d. d \<noteq> person) birthday_persons;
          (reminder_text, message) = get_birthday_reminder_text_and_message others
      in case send_birthday_reminder E (ROne person_email) reminder_text others message out of
           Done out' \<Rightarrow> shared_birthday_loop E birthday_persons rest out'
         | Raised e out' \<Rightarrow> Raised e out')"

text \<open>
  The body of the loop over the companies. \<open>list(set(a) - set(b))\<close> has no duplicate and
  an order Python does not fix; the model keeps the order of first occurrence.
\<close>

definition birthday_step :: "env \<Rightarrow> addr \<times> person list \<Rightarrow> mail list \<Rightarrow> mail list outcome" where
  "birthday_step E item out =
     (let (company_key, birthday_persons) = item
      in case get_all_employee_emails E company_key of
           Inl e \<Rightarrow> Raised e out
         | Inr employee_emails \<Rightarrow>
             (let birthday_person_emails =
                    map (\<lambda>doc. get_employee_email (user_id doc) (personal_email doc) (company_email doc))
                      birthday_persons;
                  recips = remdups (filter (\<lambda>a. a \<notin> set birthday_person_emails) employee_emails);
                  (reminder_text, message) = get_birthday_reminder_text_and_message birthday_persons
              in case send_birthday_reminder E (RList recips) reminder_text birthday_persons message out of
                   Raised e out' \<Rightarrow> Raised e out'
                 | Done out' \<Rightarrow>
                     if length birthday_persons > 1
                     then shared_birthday_loop E birthday_persons birthday_persons out'
                     else Done out'))"

fun birthday_loop :: "env \<Rightarrow> (addr \<times> person list) list \<Rightarrow> mail list \<Rightarrow> mail list outcome" where
  "birthday_loop E [] out = Done out"
| "birthday_loop E (item # rest) out =
     (case birthday_step E item out of
        Done out' \<Rightarrow> birthday_loop E rest out'
      | Raised e out' \<Rightarrow> Raised e out')"

definition send_birthday_reminders :: "env \<Rightarrow> mail list \<Rightarrow> mail list outcome" where
  "send_birthday_reminders E out =
     (if int_or (check_setting E ''stop_birthday_reminders'') 0 \<noteq> 0 then Done out
      else case get_employees_who_are_born_today E of
             None \<Rightarrow> Raised AttributeError out
           | Some employees_born_today \<Rightarrow> birthday_loop E employees_born_today out)"

subsection \<open>Work anniversary reminders\<close>

text \<open>\<open>getdate()\<close> without an argument is today's date.\<close>

definition get_work_anniversary_reminder_text_and_message ::
  "env \<Rightarrow> person list \<Rightarrow> string \<times> string" where
  "get_work_anniversary_reminder_text_and_message E anniversary_persons =
     (let anniversary_person =
            (if length anniversary_persons = 1 then
               (let completed_years =
                      year (today E) - year (date_of_joining (hd anniversary_persons))
                in name (hd anniversary_persons) @ '' completed '' @ str_int completed_years @ '' years'')
             else
               (let person_names_with_years =
                      map (\<lambda>person.
                             let completed_years = year (today E) - year (date_of_joining person)
                             in name person @ '' completed '' @ str_int completed_years @ '' years'')
                        anniversary_persons
                in comma_sep person_names_with_years ''&''));
          reminder_text = ''Today '' @ anniversary_person @ '' at our Company! '' @ party_popper;
          message = ''A friendly reminder of an important date for our team.'' @ ''<br>''
            @ ''Everyone, let'' @ right_quote @ ''s congratulate '' @ anniversary_person
            @ '' on their work anniversary!''
      in (reminder_text, message))"

definition send_work_anniversary_reminder ::
  "env \<Rightarrow> recipients \<Rightarrow> string \<Rightarrow> person list \<Rightarrow> string \<Rightarrow> mail list \<Rightarrow> mail list outcome" where
  "send_work_anniversary_reminder E recips reminder_text anniversary_persons message out =
     sendmail E
       \<lparr>m_recipients = recips,
        m_subject = ''Work Anniversary Reminder'',
        m_template = ''anniversary_reminder'',
        m_args = PersonArgs reminder_text anniversary_persons message,
        m_header = confetti_ball @ confetti_ball @ '' Work Anniversary Reminder ''
          @ confetti_ball @ confetti_ball\<rparr>
       out"

fun shared_anniversary_loop ::
  "env \<Rightarrow> person list \<Rightarrow> person list \<Rightarrow> mail list \<Rightarrow> mail list outcome" where
  "shared_anniversary_loop E anniversary_persons [] out = Done out"
| "shared_anniversary_loop E anniversary_persons (person # rest) out =
     (let person_email = py_or (user_id person) (py_or (personal_email person) (company_email person));
          others = filter (\<lambda>d. d \<noteq> person) anniversary_persons;
          (reminder_text, message) = get_work_anniversary_reminder_text_and_message E others
      in case send_work_anniversary_reminder E (ROne person_email) reminder_text others message out of
           Done out' \<Rightarrow> shared_anniversary_loop E anniversary_persons rest out'
         | Raised e out' \<Rightarrow> Raised e out')"

definition anniversary_step ::
  "env \<Rightarrow> addr \<times> person list \<Rightarrow> mail list \<Rightarrow> mail list outcome" where
  "anniversary_step E item out =
     (let (company_key, anniversary_persons) = item
      in case get_all_employee_emails E company_key of
           Inl e \<Rightarrow> Raised e out
         | Inr employee_emails \<Rightarrow>
             (let anniversary_person_emails =
                    map (\<lambda>doc. get_employee_email (user_id doc) (personal_email doc) (company_email doc))
                      anniversary_persons;
                  recips = remdups (filter (\<lambda>a. a \<notin> set anniversary_person_emails) employee_emails);
                  (reminder_text, message) =
                    get_work_anniversary_reminder_text_and_message E anniversary_persons
              in case send_work_anniversary_reminder E (RList recips) reminder_text
                        anniversary_persons message out of
                   Raised e out' \<Rightarrow> Raised e out'
                 | Done out' \<Rightarrow>
                     if length anniversary_persons > 1
                     then shared_anniversary_loop E anniversary_persons anniversary_persons out'
                     else Done out'))"

fun anniversary_loop ::
  "env \<Rightarrow> (addr \<times> person list) list \<Rightarrow> mail list \<Rightarrow> mail list outcome" where
  "anniversary_loop E [] out = Done out"
| "anniversary_loop E (item # rest) out =
     (case anniversary_step E item out of
        Done out' \<Rightarrow> anniversary_loop E rest out'
      | Raised e out' \<Rightarrow> Raised e out')"

definition send_work_anniversary_reminders :: "env \<Rightarrow> mail list \<Rightarrow> mail list outcome" where
  "send_work_anniversary_reminders E out =
     (let to_send = int_or (check_setting E ''send_work_anniversary_reminders'') 1
      in if to_send = 0 then Done out
         else case get_employees_having_an_event_today E ''work_anniversary'' of
                None \<Rightarrow> Raised AttributeError out
              | Some employees_joined_today \<Rightarrow> anniversary_loop E employees_joined_today out)"

subsection \<open>Advance holiday reminders\<close>

text \<open>
  The state of these runs is the outbox together with the log of the calls of
  \<open>get_holidays_for_employee\<close> issued so far.
\<close>

type_synonym adv_state = "mail list \<times> holiday_query list"

text \<open>\<open>pass\<close>: nothing is done, and the function returns \<open>None\<close>.\<close>

definition send_holidays_reminder_in_advance ::
  "string \<Rightarrow> holiday list \<Rightarrow> adv_state \<Rightarrow> adv_state outcome" where
  "send_holidays_reminder_in_advance employee holidays st = Done st"

text \<open>
  The first lines of \<open>send_advance_holiday_reminders\<close>: the window, \<open>None\<close> where the
  function returns for another frequency. The monthly branch calls \<open>add_days(getdate())\<close>,
  with no number of days.
\<close>

definition advance_window :: "env \<Rightarrow> string \<Rightarrow> error + (date \<times> date) option" where
  "advance_window E frequency =
     (if frequency = ''Weekly'' then
        (case add_days (today E) (Some 1) of
           Inl e \<Rightarrow> Inl e
         | Inr start_date \<Rightarrow>
             (case add_days (today E) (Some 7) of
                Inl e \<Rightarrow> Inl e
              | Inr end_date \<Rightarrow> Inr (Some (start_date, end_date))))
      else if frequency = ''Monthly'' then
        (case add_days (today E) None of
           Inl e \<Rightarrow> Inl e
         | Inr start_date \<Rightarrow> Inr (Some (start_date, add_months (today E) 1)))
      else Inr None)"

text \<open>
  The body of the loop over the employees: the call passes the two dates and the two
  keyword arguments.
\<close>

definition advance_step ::
  "env \<Rightarrow> date \<Rightarrow> date \<Rightarrow> string \<Rightarrow> adv_state \<Rightarrow> adv_state outcome" where
  "advance_step E start_date end_date employee st =
     (let q = \<lparr>q_positional = [ArgDate start_date, ArgDate end_date],
               q_only_non_weekly = True, q_raise_exception = False\<rparr>;
          st' = (fst st, snd st @ [q])
      in case get_holidays_for_employee E q of
           Inl e \<Rightarrow> Raised e st'
         | Inr holidays \<Rightarrow>
             (case holidays of
                None \<Rightarrow> Done st'
              | Some hs \<Rightarrow> send_holidays_reminder_in_advance employee hs st'))"

fun advance_loop ::
  "env \<Rightarrow> date \<Rightarrow> date \<Rightarrow> string list \<Rightarrow> adv_state \<Rightarrow> adv_state outcome" where
  "advance_loop E start_date end_date [] st = Done st"
| "advance_loop E start_date end_date (employee # rest) st =
     (case advance_step E start_date end_date employee st of
        Done st' \<Rightarrow> advance_loop E start_date end_date rest st'
      | Raised e st' \<Rightarrow> Raised e st')"

definition send_advance_holiday_reminders :: "env \<Rightarrow> string \<Rightarrow> adv_state \<Rightarrow> adv_state outcome" where
  "send_advance_holiday_reminders E frequency st =
     (case advance_window E frequency of
        Inl e \<Rightarrow> Raised e st
      | Inr None \<Rightarrow> Done st
      | Inr (Some (start_date, end_date)) \<Rightarrow>
          advance_loop E start_date end_date (get_all_employees E) st)"

definition send_reminders_in_advance_weekly :: "env \<Rightarrow> adv_state \<Rightarrow> adv_state outcome" where
  "send_reminders_in_advance_weekly E st =
     (let to_send_in_advance = int_or (check_setting E ''send_holiday_reminders_in_advance'') 1;
          frequency = select_setting E ''frequency''
      in if \<not> (to_send_in_advance \<noteq> 0 \<and> frequency = Some ''Weekly'') then Done st
         else send_advance_holiday_reminders E ''Weekly'' st)"

definition send_reminders_in_advance_monthly :: "env \<Rightarrow> adv_state \<Rightarrow> adv_state outcome" where
  "send_reminders_in_advance_monthly E st =
     (let to_send_in_advance = int_or (check_setting E ''send_holiday_reminders_in_advance'') 1;
          frequency = select_setting E ''frequency''
      in if \<not> (to_send_in_advance \<noteq> 0 \<and> frequency = Some ''Monthly'') then Done st
         else send_advance_holiday_reminders E ''Monthly'' st)"

subsection \<open>A sample organisation\<close>

definition jim :: employee where
  "jim = \<lparr>e_id = ''HR-EMP-00001'', e_employee_name = ''Jim'', e_company = Some ''Acme'',
          e_personal_email = Some ''jim@home.example'', e_company_email = Some ''jim@acme.example'',
          e_user_id = None, e_image = None,
          e_date_of_birth = \<lparr>year = 1990, month = 1, day = 15\<rparr>,
          e_date_of_joining = \<lparr>year = 2019, month = 1, day = 15\<rparr>,
          e_status = ''Active''\<rparr>"

definition rim :: employee where
  "rim = \<lparr>e_id = ''HR-EMP-00002'', e_employee_name = ''Rim'', e_company = Some ''Acme'',
          e_personal_email = None, e_company_email = Some ''rim@acme.example'',
          e_user_id = Some ''rim@login.example'', e_image = None,
          e_date_of_birth = \<lparr>year = 1985, month = 1, day = 15\<rparr>,
          e_date_of_joining = \<lparr>year = 2021, month = 1, day = 15\<rparr>,
          e_status = ''Active''\<rparr>"

definition dim :: employee where
  "dim = \<lparr>e_id = ''HR-EMP-00003'', e_employee_name = ''Dim'', e_company = Some ''Globex'',
          e_personal_email = None, e_company_email = Some ''dim@globex.example'',
          e_user_id = None, e_image = None,
          e_date_of_birth = \<lparr>year = 1992, month = 3, day = 2\<rparr>,
          e_date_of_joining = \<lparr>year = 2022, month = 6, day = 1\<rparr>,
          e_status = ''Active''\<rparr>"

text \<open>
  A sample day, 2024-01-15: a holiday with one description for Jim, one with three for
  Rim, none for Dim; Jim and Rim were born and joined on a 15 January; every Check field
  holds the given value; nothing raises.
\<close>

definition sample_env :: "int option \<Rightarrow> env" where
  "sample_env flag =
     \<lparr>check_setting = (\<lambda>f. flag),
      select_setting = (\<lambda>f. if f = ''frequency'' then Some ''Weekly'' else None),
      tabEmployee = [jim, rim, dim],
      today = \<lparr>year = 2024, month = 1, day = 15\<rparr>,
      is_holiday = (\<lambda>k. if k = ''HR-EMP-00001'' then Inr (True, [''Founders Day''])
                         else if k = ''HR-EMP-00002'' then
                           Inr (True, [''Harvest'', ''Full Moon'', ''Founders Day''])
                         else Inr (False, [])),
      get_all_employee_emails =
        (\<lambda>c. if c = Some ''Acme'' then
                 Inr [Some ''jim@home.example'', Some ''rim@login.example'',
                      Some ''kim@acme.example'', Some ''kim@acme.example'']
               else Inr [Some ''dim@globex.example'']),
      get_holidays_for_employee = (\<lambda>q. Inr (Some [])),
      sendmail_error = (\<lambda>m. None)\<rparr>"

subsection \<open>What the specification expects of a holiday mail\<close>

text \<open>
  The description in the message, in the words of the specification: a single
  description verbatim, several joined with commas and a final "and".
\<close>

definition spec_description :: "string list \<Rightarrow> string" where
  "spec_description ds =
     (case ds of [] \<Rightarrow> [] | [d] \<Rightarrow> d
      | _ \<Rightarrow> join_comma (butlast ds) @ '' and '' @ last ds)"

text \<open>
  The one mail an employee is to get: none unless the holiday store reports a
  non-weekly holiday today, and otherwise a mail to the employee's resolved address.
\<close>

definition spec_holiday_mail :: "env \<Rightarrow> employee \<Rightarrow> mail option" where
  "spec_holiday_mail E r =
     (case is_holiday E (e_id r) of
        Inr (True, ds) \<Rightarrow>
          Some \<lparr>m_recipients = RList [py_or (e_user_id r) (py_or (e_personal_email r) (e_company_email r))],
                m_subject = ''Holiday Reminder'',
                m_template = ''holiday_reminder'',
                m_args = HolidayArgs (''This email is to remind you about today'' @ [CHR 0x27] @ ''s holiday.'')
                           (''Holiday is on the occassion of '' @ spec_description ds @ ''.''),
                m_header = ''Today is a holiday for you.''\<rparr>
      | _ \<Rightarrow> None)"

subsection \<open>The mails of a birthday run in which nothing raises\<close>

text \<open>The group mail of a company, from the addresses the store returned for it.\<close>

definition birthday_group_mail :: "addr list \<Rightarrow> person list \<Rightarrow> mail" where
  "birthday_group_mail employee_emails ps =
     \<lparr>m_recipients = RList (remdups (filter
          (\<lambda>a. a \<notin> set (map (\<lambda>doc. get_employee_email (user_id doc) (personal_email doc) (company_email doc)) ps))
          employee_emails)),
      m_subject = ''Birthday Reminder'',
      m_template = ''birthday_reminder'',
      m_args = PersonArgs (fst (get_birthday_reminder_text_and_message ps)) ps
                 (snd (get_birthday_reminder_text_and_message ps)),
      m_header = ''Birthday Reminder '' @ birthday_cake\<rparr>"

text \<open>The mail to one of the people who share a birthday.\<close>

definition birthday_shared_mail :: "person list \<Rightarrow> person \<Rightarrow> mail" where
  "birthday_shared_mail ps person =
     (let others = filter (\<lambda>d. d \<noteq> person) ps
      in \<lparr>m_recipients = ROne (py_or (user_id person) (py_or (personal_email person) (company_email person))),
          m_subject = ''Birthday Reminder'',
          m_template = ''birthday_reminder'',
          m_args = PersonArgs (fst (get_birthday_reminder_text_and_message others)) others
                     (snd (get_birthday_reminder_text_and_message others)),
          m_header = ''Birthday Reminder '' @ birthday_cake\<rparr>)"

definition birthday_company_mails :: "env \<Rightarrow> addr \<times> person list \<Rightarrow> mail list" where
  "birthday_company_mails E item =
     (case get_all_employee_emails E (fst item) of
        Inl e \<Rightarrow> []
      | Inr employee_emails \<Rightarrow>
          birthday_group_mail employee_emails (snd item)
          # (if length (snd item) > 1 then map (birthday_shared_mail (snd item)) (snd item) else []))"

text \<open>
  A group mail about the people \<open>ps\<close>: it is addressed to a list and its template
  argument \<open>birthday_persons\<close> is \<open>ps\<close>.
\<close>

definition is_group_mail_of :: "person list \<Rightarrow> mail \<Rightarrow> bool" where
  "is_group_mail_of ps m =
     (case m_recipients m of
        RList rs \<Rightarrow> (case m_args m of PersonArgs t qs msg \<Rightarrow> qs = ps | HolidayArgs t msg \<Rightarrow> False)
      | ROne a \<Rightarrow> False)"

text \<open>The rows the event query returns for birthdays, restricted to one company.\<close>

definition queried_persons_of :: "env \<Rightarrow> addr \<Rightarrow> person list" where
  "queried_persons_of E c = filter (\<lambda>p. company p = c) (event_query E e_date_of_birth)"

subsection \<open>What the specification expects of a birthday run\<close>

text \<open>
  In the words of the specification, on the employee table: an employee has a birthday
  today when the employee is active and the day and the month of the date of birth are
  those of today.
\<close>

definition born_today :: "env \<Rightarrow> employee \<Rightarrow> bool" where
  "born_today E r =
     (e_status r = ''Active''
      \<and> month (e_date_of_birth r) = month (today E)
      \<and> day (e_date_of_birth r) = day (today E))"

text \<open>The birthday people of a company, as employees of the table, in table order.\<close>

definition birthday_employees_of :: "env \<Rightarrow> addr \<Rightarrow> employee list" where
  "birthday_employees_of E c = filter (\<lambda>r. born_today E r \<and> e_company r = c) (tabEmployee E)"

text \<open>The same people as the template argument of a mail shows them.\<close>

definition birthday_persons_of :: "env \<Rightarrow> addr \<Rightarrow> person list" where
  "birthday_persons_of E c = map to_person (birthday_employees_of E c)"

subsection \<open>Further sample data\<close>

text \<open>
  Two employees of one company with the same name, the same shared office address and
  the same date of joining, both born on a 15 January: the event query selects the same
  dictionary for both.
\<close>

definition alex_a :: employee where
  "alex_a = \<lparr>e_id = ''HR-EMP-00004'', e_employee_name = ''Alex Kim'', e_company = Some ''Acme'',
          e_personal_email = None, e_company_email = Some ''office@acme.example'',
          e_user_id = None, e_image = None,
          e_date_of_birth = \<lparr>year = 1991, month = 1, day = 15\<rparr>,
          e_date_of_joining = \<lparr>year = 2020, month = 3, day = 1\<rparr>,
          e_status = ''Active''\<rparr>"

definition alex_b :: employee where
  "alex_b = \<lparr>e_id = ''HR-EMP-00005'', e_employee_name = ''Alex Kim'', e_company = Some ''Acme'',
          e_personal_email = None, e_company_email = Some ''office@acme.example'',
          e_user_id = None, e_image = None,
          e_date_of_birth = \<lparr>year = 1988, month = 1, day = 15\<rparr>,
          e_date_of_joining = \<lparr>year = 2020, month = 3, day = 1\<rparr>,
          e_status = ''Active''\<rparr>"

definition namesakes_env :: env where
  "namesakes_env = (sample_env (Some 0))\<lparr>tabEmployee := [alex_a, alex_b]\<rparr>"

text \<open>
  The sample day with every reminder switched on and a data store that fails for Rim's
  holidays and for every list of company addresses; Dim has a holiday too.
\<close>

definition failing_env :: env where
  "failing_env =
     (sample_env (Some 1))
       \<lparr>check_setting := (\<lambda>f. if f = ''stop_birthday_reminders'' then Some 0 else Some 1),
        is_holiday := (\<lambda>k. if k = ''HR-EMP-00002'' then Inl DataStoreError
                             else Inr (True, [''Founders Day''])),
        get_all_employee_emails := (\<lambda>c. Inl DataStoreError)\<rparr>"

text \<open>The template arguments of a mail about people.\<close>

definition mail_persons :: "mail \<Rightarrow> person list" where
  "mail_persons m = (case m_args m of PersonArgs t ps msg \<Rightarrow> ps | HolidayArgs t msg \<Rightarrow> [])"

definition mail_reminder_text :: "mail \<Rightarrow> string" where
  "mail_reminder_text m = (case m_args m of PersonArgs t ps msg \<Rightarrow> t | HolidayArgs t msg \<Rightarrow> t)"

subsection \<open>What the specification expects of an anniversary text\<close>

text \<open>
  The text for one person: the name, followed by the years completed, the current year
  minus the year of the date of joining.
\<close>

definition spec_years_text :: "int \<Rightarrow> person \<Rightarrow> string" where
  "spec_years_text current_year p =
     name p @ '' completed '' @ str_int (current_year - year (date_of_joining p)) @ '' years''"

section \<open>Properties\<close>

subsection \<open>The sample organisation, evaluated\<close>

lemma sample_simps:
  "check_setting (sample_env flag) f = flag"
  "tabEmployee (sample_env flag) = [jim, rim, dim]"
  "sendmail_error (sample_env flag) m = None"
  "today (sample_env flag) = \<lparr>year = 2024, month = 1, day = 15\<rparr>"
  by (simp_all add: sample_env_def)

lemma sample_holidays:
  "is_holiday (sample_env flag) ''HR-EMP-00001'' = Inr (True, [''Founders Day''])"
  "is_holiday (sample_env flag) ''HR-EMP-00002'' = Inr (True, [''Harvest'', ''Full Moon'', ''Founders Day''])"
  "is_holiday (sample_env flag) ''HR-EMP-00003'' = Inr (False, [])"
  by (simp_all add: sample_env_def)

lemma sample_ids:
  "e_id jim = ''HR-EMP-00001''" "e_id rim = ''HR-EMP-00002''" "e_id dim = ''HR-EMP-00003''"
  by (simp_all add: jim_def rim_def dim_def)

subsection \<open>Holiday reminders\<close>

lemma find_distinct_id:
  "distinct (map e_id T) \<Longrightarrow> r \<in> set T \<Longrightarrow> find (\<lambda>x. e_id x = e_id r) T = Some r"
  by (induction T) (auto simp: rev_image_eqI)

lemma get_doc_row:
  "distinct (map e_id (tabEmployee E)) \<Longrightarrow> r \<in> set (tabEmployee E) \<Longrightarrow> get_doc E (e_id r) = Inr r"
  by (simp add: get_doc_def find_distinct_id)

lemma description_eq:
  "(if length ds = 1 then hd ds else comma_and ds) = spec_description ds"
  by (cases ds rule: list.exhaust;
      simp add: comma_and_def comma_sep_def spec_description_def split: list.splits)

lemma holiday_step_ok:
  assumes "distinct (map e_id (tabEmployee E))" "r \<in> set (tabEmployee E)"
    and "\<not> isl (is_holiday E (e_id r))" "\<And>m. sendmail_error E m = None"
  shows "holiday_step E (e_id r) out =
     Done (out @ (case spec_holiday_mail E r of None \<Rightarrow> [] | Some m \<Rightarrow> [m]))"
proof (cases "is_holiday E (e_id r)")
  case (Inl e)
  with assms(3) show ?thesis by simp
next
  case (Inr v)
  obtain h ds where v: "v = (h, ds)" by (cases v)
  show ?thesis
    using Inr v assms(4) get_doc_row[OF assms(1,2)] description_eq[of ds]
    by (simp add: holiday_step_def spec_holiday_mail_def send_holiday_reminder_to_employee_def
        sendmail_def holiday_mail_def get_holiday_reminder_text_and_message_def Let_def
        get_employee_email_def split: if_splits)
qed

lemma holiday_loop_ok:
  assumes "distinct (map e_id (tabEmployee E))"
    and "\<forall>r\<in>set (tabEmployee E). \<not> isl (is_holiday E (e_id r))" "\<And>m. sendmail_error E m = None"
  shows "set rs \<subseteq> set (tabEmployee E) \<Longrightarrow>
     holiday_loop E (map e_id rs) out = Done (out @ List.map_filter (spec_holiday_mail E) rs)"
proof (induction rs arbitrary: out)
  case Nil
  then show ?case by (simp add: List.map_filter_simps)
next
  case (Cons r rs)
  then have r: "r \<in> set (tabEmployee E)" and rs: "set rs \<subseteq> set (tabEmployee E)" by auto
  have st: "holiday_step E (e_id r) out =
     Done (out @ (case spec_holiday_mail E r of None \<Rightarrow> [] | Some m \<Rightarrow> [m]))"
    using holiday_step_ok[OF assms(1) r _ assms(3)] assms(2) r by blast
  show ?case
    by (simp add: st Cons.IH[OF rs] List.map_filter_simps split: option.splits)
qed

text \<open>
  C2. With the holiday flag enabled, and when neither the holiday store nor the mail
  sender raises, the run returns and the mails it has sent are, in the order of the
  employee table, exactly one mail for each employee for whom the store reports a
  non-weekly holiday today and none for the others. The mail goes to the employee's
  resolved address and its message carries the single description verbatim, or the
  descriptions joined with commas and "and". The table holds every employee, the active
  ones among them; the primary keys are distinct.
\<close>

theorem holiday_reminders_one_mail_per_holiday_employee:
  assumes "check_setting E ''send_holiday_reminders'' = Some n" "n \<noteq> 0"
    and "distinct (map e_id (tabEmployee E))"
    and "\<forall>r\<in>set (tabEmployee E). \<not> isl (is_holiday E (e_id r))"
    and "\<forall>m. sendmail_error E m = None"
  shows "send_holiday_reminders E out =
     Done (out @ List.map_filter (spec_holiday_mail E) (tabEmployee E))"
  using assms holiday_loop_ok[of E "tabEmployee E" out]
  by (simp add: send_holiday_reminders_def int_or_def get_all_employees_def)

theorem holiday_reminders_one_mail_per_holiday_employee_witness:
  "check_setting (sample_env (Some 1)) ''send_holiday_reminders'' = Some 1
   \<and> map m_recipients (final (send_holiday_reminders (sample_env (Some 1)) []))
       = [RList [Some ''jim@home.example''], RList [Some ''rim@login.example'']]
   \<and> map m_args (final (send_holiday_reminders (sample_env (Some 1)) []))
       = [HolidayArgs ''This email is to remind you about today's holiday.''
            ''Holiday is on the occassion of Founders Day.'',
          HolidayArgs ''This email is to remind you about today's holiday.''
            ''Holiday is on the occassion of Harvest, Full Moon and Founders Day.'']"
proof -
  have "send_holiday_reminders (sample_env (Some 1)) [] =
     Done ([] @ List.map_filter (spec_holiday_mail (sample_env (Some 1)))
       (tabEmployee (sample_env (Some 1))))"
    by (rule holiday_reminders_one_mail_per_holiday_employee[where n = 1])
       (simp_all add: sample_simps sample_holidays sample_ids)
  then show ?thesis
    by (simp add: sample_simps sample_holidays List.map_filter_simps spec_holiday_mail_def
        spec_description_def py_or_def sample_ids jim_def rim_def)
qed

subsection \<open>Grouping by company\<close>

lemma map_of_append_to_group:
  "map_of (append_to_group k v g) k' =
     (if k' = k then Some ((case map_of g k of None \<Rightarrow> [] | Some vs \<Rightarrow> vs) @ [v])
      else map_of g k')"
  by (induction g) (auto split: option.splits)

lemma keys_append_to_group:
  "map fst (append_to_group k v g) = (if k \<in> set (map fst g) then map fst g else map fst g @ [k])"
  by (induction g) (auto simp: rev_image_eqI)

lemma distinct_append_to_group:
  "distinct (map fst g) \<Longrightarrow> distinct (map fst (append_to_group k v g))"
  by (simp add: keys_append_to_group)

lemma distinct_foldl_group:
  "distinct (map fst g) \<Longrightarrow>
   distinct (map fst (foldl (\<lambda>g d. append_to_group (company d) d g) g docs))"
  by (induction docs arbitrary: g) (simp_all add: distinct_append_to_group)

lemma map_of_foldl_group:
  "map_of (foldl (\<lambda>g d. append_to_group (company d) d g) g docs) k =
     (case map_of g k of
        None \<Rightarrow> (if k \<in> company ` set docs then Some (filter (\<lambda>p. company p = k) docs) else None)
      | Some vs \<Rightarrow> Some (vs @ filter (\<lambda>p. company p = k) docs))"
proof (induction docs arbitrary: g)
  case Nil
  then show ?case by (simp split: option.splits)
next
  case (Cons d docs)
  show ?case
    by (simp add: Cons.IH map_of_append_to_group split: option.splits)
qed

lemma distinct_group_by_company: "distinct (map fst (group_by_company docs))"
  by (simp add: group_by_company_def distinct_foldl_group)

lemma map_of_group_by_company:
  "map_of (group_by_company docs) k =
     (if k \<in> company ` set docs then Some (filter (\<lambda>p. company p = k) docs) else None)"
  by (simp add: group_by_company_def map_of_foldl_group)

lemma group_by_company_entry:
  assumes "(k, ps) \<in> set (group_by_company docs)"
  shows "ps = filter (\<lambda>p. company p = k) docs \<and> k \<in> company ` set docs"
proof -
  have "map_of (group_by_company docs) k = Some ps"
    using assms distinct_group_by_company by (simp add: map_of_eq_Some_iff)
  then show ?thesis
    by (simp add: map_of_group_by_company split: if_splits)
qed

lemma group_by_company_own_key:
  "(k, ps) \<in> set (group_by_company docs) \<Longrightarrow> p \<in> set ps \<Longrightarrow> company p = k"
  using group_by_company_entry[of k ps docs] by auto

text \<open>
  C10. For the event types "birthday" and "work_anniversary" the function returns a
  dictionary: its keys are distinct, and every record in it stands under the key that
  equals the record's own company, hence in one group only. For any other event type
  it returns \<open>None\<close>, not an empty dictionary.
\<close>

theorem event_groups_keyed_by_own_company:
  "(event_type = ''birthday'' \<or> event_type = ''work_anniversary'' \<longrightarrow>
      (\<exists>g. get_employees_having_an_event_today E event_type = Some g
         \<and> distinct (map fst g)
         \<and> (\<forall>k ps p. (k, ps) \<in> set g \<and> p \<in> set ps \<longrightarrow> company p = k)))
   \<and> (event_type \<noteq> ''birthday'' \<and> event_type \<noteq> ''work_anniversary'' \<longrightarrow>
      get_employees_having_an_event_today E event_type = None)"
  by (auto simp: get_employees_having_an_event_today_def distinct_group_by_company
      dest: group_by_company_own_key)

theorem event_groups_keyed_by_own_company_witness:
  "(\<exists>g. get_employees_having_an_event_today (sample_env None) ''birthday'' = Some g
         \<and> distinct (map fst g)
         \<and> (\<forall>k ps p. (k, ps) \<in> set g \<and> p \<in> set ps \<longrightarrow> company p = k))
   \<and> get_employees_having_an_event_today (sample_env None) ''holiday'' = None"
  using event_groups_keyed_by_own_company[of "''birthday''" "sample_env None"] event_groups_keyed_by_own_company[of "''holiday''" "sample_env None"]
  by simp

subsection \<open>Birthday reminders\<close>

lemma shared_birthday_loop_ok:
  assumes "\<And>m. sendmail_error E m = None"
  shows "shared_birthday_loop E ps rest out = Done (out @ map (birthday_shared_mail ps) rest)"
  by (induction rest arbitrary: out)
     (simp_all add: Let_def send_birthday_reminder_def sendmail_def assms birthday_shared_mail_def
        split: prod.splits)

lemma birthday_step_ok:
  assumes "\<And>m. sendmail_error E m = None" "\<not> isl (get_all_employee_emails E (fst item))"
  shows "birthday_step E item out = Done (out @ birthday_company_mails E item)"
proof (cases "get_all_employee_emails E (fst item)")
  case (Inl e)
  with assms(2) show ?thesis by simp
next
  case (Inr emails)
  obtain c ps where item: "item = (c, ps)" by (cases item)
  show ?thesis
    using Inr item
    by (simp add: birthday_step_def birthday_company_mails_def Let_def send_birthday_reminder_def
        sendmail_def assms(1) birthday_group_mail_def shared_birthday_loop_ok[OF assms(1)]
        split: prod.splits)
qed

lemma birthday_loop_ok:
  assumes "\<And>m. sendmail_error E m = None" "\<forall>c. \<not> isl (get_all_employee_emails E c)"
  shows "birthday_loop E g out = Done (out @ concat (map (birthday_company_mails E) g))"
proof (induction g arbitrary: out)
  case Nil
  then show ?case by simp
next
  case (Cons item g)
  have "birthday_step E item out = Done (out @ birthday_company_mails E item)"
    using birthday_step_ok[OF assms(1)] assms(2) by blast
  then show ?case by (simp add: Cons.IH)
qed

lemma filter_concat_single:
  assumes "distinct (map fst g)" "(k, v) \<in> set g"
    and "\<And>k' v'. (k', v') \<in> set g \<Longrightarrow> k' \<noteq> k \<Longrightarrow> filter P (F (k', v')) = []"
    and "filter P (F (k, v)) = [m]"
  shows "filter P (concat (map F g)) = [m]"
  using assms(1,2,3)
proof (induction g)
  case Nil
  then show ?case by simp
next
  case (Cons x g)
  obtain k' v' where x: "x = (k', v')" by (cases x)
  show ?case
  proof (cases "k' = k")
    case True
    with Cons.prems x have xv: "x = (k, v)" by (auto simp: rev_image_eqI)
    have rest: "\<And>y. y \<in> set g \<Longrightarrow> filter P (F y) = []"
    proof -
      fix y assume y: "y \<in> set g"
      obtain a b where ab: "y = (a, b)" by (cases y)
      have "a \<noteq> k" using Cons.prems(1) y ab xv by (auto simp: rev_image_eqI)
      then show "filter P (F y) = []" using Cons.prems(3)[of a b] y ab by simp
    qed
    have "filter P (concat (map F g)) = []"
      using rest by (induction g) auto
    then show ?thesis using xv assms(4) by simp
  next
    case False
    then have "filter P (F x) = []" using Cons.prems(3)[of k' v'] x by simp
    moreover have "filter P (concat (map F g)) = [m]"
      using Cons.IH Cons.prems False x by auto
    ultimately show ?thesis by simp
  qed
qed

lemma group_by_company_has_entry:
  assumes "k \<in> company ` set docs"
  shows "(k, filter (\<lambda>p. company p = k) docs) \<in> set (group_by_company docs)"
  using assms map_of_group_by_company[of docs k] by (simp add: map_of_SomeD)

lemma shared_mail_not_group: "\<not> is_group_mail_of ps (birthday_shared_mail qs q)"
  by (simp add: is_group_mail_of_def birthday_shared_mail_def Let_def)

lemma group_mail_is_group: "is_group_mail_of ps (birthday_group_mail emails qs) = (qs = ps)"
  by (simp add: is_group_mail_of_def birthday_group_mail_def)

lemma filter_company_mails:
  assumes "get_all_employee_emails E k = Inr emails"
  shows "filter (is_group_mail_of ps) (birthday_company_mails E (k, qs)) =
     (if qs = ps then [birthday_group_mail emails qs] else [])"
proof -
  have "filter (is_group_mail_of ps) (map (birthday_shared_mail qs) qs) = []"
    by (simp add: filter_empty_conv shared_mail_not_group)
  then show ?thesis
    using assms by (auto simp: birthday_company_mails_def group_mail_is_group)
qed

text \<open>The group mail, stated on the rows the event query returns.\<close>

lemma birthday_group_mail_of_query:
  assumes "check_setting E ''stop_birthday_reminders'' = None
           \<or> check_setting E ''stop_birthday_reminders'' = Some 0"
    and send: "\<forall>m. sendmail_error E m = None"
    and store: "\<forall>c. \<not> isl (get_all_employee_emails E c)"
    and r: "r \<in> set (tabEmployee E)" "has_event_today E e_date_of_birth r"
    and emails: "get_all_employee_emails E (e_company r) = Inr employee_emails"
  shows "\<exists>new rs. send_birthday_reminders E out = Done (out @ new)
      \<and> map m_recipients (filter (is_group_mail_of (queried_persons_of E (e_company r))) new)
          = [RList rs]
      \<and> distinct rs
      \<and> set rs = set employee_emails
            - set (map (\<lambda>doc. get_employee_email (user_id doc) (personal_email doc) (company_email doc))
                    (queried_persons_of E (e_company r)))"
proof -
  define docs where "docs = event_query E e_date_of_birth"
  define c where "c = e_company r"
  define ps where "ps = queried_persons_of E c"
  define g where "g = group_by_company docs"
  have run: "send_birthday_reminders E out = Done (out @ concat (map (birthday_company_mails E) g))"
    using assms(1) birthday_loop_ok[of E g out] send store
    by (auto simp: send_birthday_reminders_def int_or_def get_employees_who_are_born_today_def
        get_employees_having_an_event_today_def g_def docs_def)
  have mem: "to_person r \<in> set docs"
    using r by (simp add: docs_def event_query_def)
  have cr: "company (to_person r) = c"
    by (simp add: to_person_def c_def)
  have cin: "c \<in> company ` set docs"
    using mem cr by force
  have ps_eq: "ps = filter (\<lambda>p. company p = c) docs"
    by (simp add: ps_def queried_persons_of_def docs_def)
  have entry: "(c, ps) \<in> set g"
    unfolding g_def ps_eq by (rule group_by_company_has_entry[OF cin])
  have ps_mem: "to_person r \<in> set ps"
    using mem cr by (simp add: ps_eq)
  have other: "filter (is_group_mail_of ps) (birthday_company_mails E (k', v')) = []"
    if "(k', v') \<in> set g" "k' \<noteq> c" for k' v'
  proof -
    obtain em where em: "get_all_employee_emails E k' = Inr em"
    proof (cases "get_all_employee_emails E k'")
      case (Inl a)
      then have "isl (get_all_employee_emails E k')" by simp
      with store show ?thesis by blast
    next
      case (Inr b)
      then show ?thesis using that by blast
    qed
    have "company (to_person r) = k'" if "v' = ps"
      using group_by_company_own_key[of k' v' docs "to_person r"] \<open>(k', v') \<in> set g\<close> ps_mem that
      by (simp add: g_def)
    then have "v' \<noteq> ps" using cr \<open>k' \<noteq> c\<close> by auto
    then show ?thesis by (simp add: filter_company_mails[OF em])
  qed
  have own: "filter (is_group_mail_of ps) (birthday_company_mails E (c, ps)) =
      [birthday_group_mail employee_emails ps]"
    using filter_company_mails[of E c employee_emails ps ps] emails by (simp add: c_def)
  have dist: "distinct (map fst g)"
    by (simp add: g_def distinct_group_by_company)
  have one: "filter (is_group_mail_of ps) (concat (map (birthday_company_mails E) g)) =
      [birthday_group_mail employee_emails ps]"
    by (rule filter_concat_single[where P = "is_group_mail_of ps" and F = "birthday_company_mails E"
          and k = c and v = ps, OF dist entry other own])
  define rs where "rs = remdups (filter
          (\<lambda>a. a \<notin> set (map (\<lambda>doc. get_employee_email (user_id doc) (personal_email doc) (company_email doc)) ps))
          employee_emails)"
  have f1: "map m_recipients (filter (is_group_mail_of ps) (concat (map (birthday_company_mails E) g)))
      = [RList rs]"
    by (simp add: one birthday_group_mail_def rs_def)
  have f2: "distinct rs" by (simp add: rs_def)
  have f3: "set rs = set employee_emails
      - set (map (\<lambda>doc. get_employee_email (user_id doc) (personal_email doc) (company_email doc)) ps)"
    by (auto simp: rs_def)
  show ?thesis
    apply (rule exI[of _ "concat (map (birthday_company_mails E) g)"])
    apply (rule exI[of _ rs])
    using run f1 f2 f3 unfolding ps_def c_def
    apply (intro conjI)
       apply assumption+
    done
qed

text \<open>The query returns, for a company, exactly its birthday people of the table.\<close>

lemma born_today_is_query_condition: "born_today E r = has_event_today E e_date_of_birth r"
  by (auto simp: born_today_def has_event_today_def)

lemma company_to_person: "company (to_person r) = e_company r"
  by (simp add: to_person_def)

lemma queried_persons_are_birthday_persons: "queried_persons_of E c = birthday_persons_of E c"
proof -
  have "filter (\<lambda>p. company p = c) (map to_person (filter (has_event_today E e_date_of_birth) T))
      = map to_person (filter (\<lambda>r. born_today E r \<and> e_company r = c) T)" for T
    by (induction T) (simp_all add: born_today_is_query_condition company_to_person)
  then show ?thesis
    by (simp add: queried_persons_of_def birthday_persons_of_def birthday_employees_of_def
        event_query_def)
qed

lemma resolved_of_birthday_persons:
  "set (map (\<lambda>doc. get_employee_email (user_id doc) (personal_email doc) (company_email doc))
         (birthday_persons_of E c))
   = (\<lambda>x. get_employee_email (e_user_id x) (e_personal_email x) (e_company_email x))
       ` {x \<in> set (tabEmployee E). born_today E x \<and> e_company x = c}"
  by (auto simp: birthday_persons_of_def birthday_employees_of_def to_person_def)

text \<open>
  C3. When birthday reminders are not stopped and neither the store nor the mail sender
  raises, then for every company with at least one active employee of the table born on
  today's day and month the run sends exactly one group mail about that company's
  birthday people. Its recipients have no duplicate and are, as a set, the addresses the
  store returns for the company minus the resolved addresses of the employees of the
  table who are active, belong to the company and have their birthday today.
\<close>

theorem birthday_group_mail_excludes_birthday_persons:
  assumes "check_setting E ''stop_birthday_reminders'' = None
           \<or> check_setting E ''stop_birthday_reminders'' = Some 0"
    and send: "\<forall>m. sendmail_error E m = None"
    and store: "\<forall>c. \<not> isl (get_all_employee_emails E c)"
    and r: "r \<in> set (tabEmployee E)" "born_today E r"
    and emails: "get_all_employee_emails E (e_company r) = Inr employee_emails"
  shows "\<exists>new rs. send_birthday_reminders E out = Done (out @ new)
      \<and> map m_recipients (filter (is_group_mail_of (birthday_persons_of E (e_company r))) new)
          = [RList rs]
      \<and> distinct rs
      \<and> set rs = set employee_emails
            - (\<lambda>x. get_employee_email (e_user_id x) (e_personal_email x) (e_company_email x))
                ` {x \<in> set (tabEmployee E). born_today E x \<and> e_company x = e_company r}"
proof -
  have q: "has_event_today E e_date_of_birth r"
    using r(2) by (simp add: born_today_is_query_condition)
  show ?thesis
    using birthday_group_mail_of_query[OF assms(1) send store r(1) q emails, of out]
    by (simp only: queried_persons_are_birthday_persons resolved_of_birthday_persons)
qed

lemma birthday_employees_set:
  "{x \<in> set (tabEmployee E). born_today E x \<and> e_company x = c} = set (birthday_employees_of E c)"
  by (auto simp: birthday_employees_of_def)

lemma sample_birthday_employees:
  "birthday_employees_of (sample_env flag) (Some ''Acme'') = [jim, rim]"
  by (simp add: birthday_employees_of_def born_today_def sample_simps jim_def rim_def dim_def)

lemma sample_born_today:
  "birthday_persons_of (sample_env flag) (Some ''Acme'') = [to_person jim, to_person rim]"
  "{x \<in> set (tabEmployee (sample_env flag)). born_today (sample_env flag) x \<and> e_company x = Some ''Acme''}
     = set [jim, rim]"
  by (simp_all only: birthday_employees_set birthday_persons_of_def sample_birthday_employees
      list.map)

lemma sample_emails:
  "get_all_employee_emails (sample_env flag) (Some ''Acme'') =
     Inr [Some ''jim@home.example'', Some ''rim@login.example'',
          Some ''kim@acme.example'', Some ''kim@acme.example'']"
  "\<not> isl (get_all_employee_emails (sample_env flag) c)"
  by (simp_all add: sample_env_def)

theorem birthday_group_mail_excludes_birthday_persons_witness:
  "\<exists>new rs. send_birthday_reminders (sample_env (Some 0)) [] = Done ([] @ new)
      \<and> map m_recipients (filter (is_group_mail_of [to_person jim, to_person rim]) new) = [RList rs]
      \<and> distinct rs
      \<and> set rs = {Some ''kim@acme.example''}"
proof -
  have c: "e_company jim = Some ''Acme''" by (simp add: jim_def)
  have b: "born_today (sample_env (Some 0)) jim"
    by (simp add: born_today_def sample_simps jim_def)
  have d: "set [Some ''jim@home.example'', Some ''rim@login.example'',
          Some ''kim@acme.example'', Some ''kim@acme.example'']
      - (\<lambda>x. get_employee_email (e_user_id x) (e_personal_email x) (e_company_email x)) ` set [jim, rim]
      = {Some ''kim@acme.example''}"
    by (auto simp: get_employee_email_def py_or_def jim_def rim_def)
  have h1: "check_setting (sample_env (Some 0)) ''stop_birthday_reminders'' = None
      \<or> check_setting (sample_env (Some 0)) ''stop_birthday_reminders'' = Some 0"
    by (simp add: sample_simps)
  have h2: "\<forall>m. sendmail_error (sample_env (Some 0)) m = None"
    by (simp add: sample_simps)
  have h3: "\<forall>c. \<not> isl (get_all_employee_emails (sample_env (Some 0)) c)"
    by (simp add: sample_emails)
  have h4: "jim \<in> set (tabEmployee (sample_env (Some 0)))"
    by (simp add: sample_simps)
  have h5: "get_all_employee_emails (sample_env (Some 0)) (e_company jim) =
      Inr [Some ''jim@home.example'', Some ''rim@login.example'',
           Some ''kim@acme.example'', Some ''kim@acme.example'']"
    by (simp only: c sample_emails)
  show ?thesis
    using birthday_group_mail_excludes_birthday_persons[OF h1 h2 h3 h4 b h5, of "[]"]
    by (simp only: c sample_born_today d)
qed

subsection \<open>Decimal rendering\<close>

lemma str_int_examples:
  "str_int 0 = ''0''" "str_int 5 = ''5''" "str_int 12 = ''12''" "str_int 105 = ''105''"
  "str_int (- 3) = ''-3''"
  by code_simp+

subsection \<open>The settings flags\<close>

text \<open>\<open>int(v or 1)\<close> is never zero: a stored \<open>0\<close> is falsy and becomes the default.\<close>

lemma to_send_never_zero: "int_or v 1 \<noteq> 0"
  by (simp add: int_or_def split: option.splits)

lemma holiday_flag_ignored:
  "send_holiday_reminders E out = holiday_loop E (get_all_employees E) out"
  by (simp add: send_holiday_reminders_def to_send_never_zero)

lemma anniversary_flag_ignored:
  "send_work_anniversary_reminders E out =
     (case get_employees_having_an_event_today E ''work_anniversary'' of
        None \<Rightarrow> Raised AttributeError out
      | Some g \<Rightarrow> anniversary_loop E g out)"
  by (simp add: send_work_anniversary_reminders_def to_send_never_zero)

text \<open>
  C1. The claim is that a flag with the value 0 means no mail of that type. On the
  sample day, with every Check field of HR Settings holding 0, the holiday run still
  mails Jim and Rim, and the work anniversary run still sends its group mail and the two
  mails to the people who share the anniversary.
\<close>

theorem disabled_flag_still_sends:
  "check_setting (sample_env (Some 0)) ''send_holiday_reminders'' = Some 0
   \<and> map m_recipients (final (send_holiday_reminders (sample_env (Some 0)) []))
       = [RList [Some ''jim@home.example''], RList [Some ''rim@login.example'']]
   \<and> check_setting (sample_env (Some 0)) ''send_work_anniversary_reminders'' = Some 0
   \<and> map m_recipients (final (send_work_anniversary_reminders (sample_env (Some 0)) []))
       = [RList [Some ''kim@acme.example''], ROne (Some ''jim@home.example''),
          ROne (Some ''rim@login.example'')]"
  by code_simp

subsection \<open>People who share a birthday\<close>

lemma others_without_namesakes:
  "distinct ps \<Longrightarrow> person \<in> set ps \<Longrightarrow>
   filter (\<lambda>d. d \<noteq> person) ps = remove1 person ps"
  by (induction ps) (auto simp: filter_id_conv)

text \<open>
  C4. The claim is that the mail to a person who shares a birthday names exactly the
  other people of the group. Alex Kim (HR-EMP-00004) and Alex Kim (HR-EMP-00005) are two
  employees for whom the query selects equal dictionaries; \<open>d != person\<close> then removes
  both from \<open>others\<close>, and each of the two mails names nobody.
\<close>

theorem namesakes_are_not_named_to_each_other:
  "e_id alex_a \<noteq> e_id alex_b
   \<and> to_person alex_a = to_person alex_b
   \<and> map m_recipients (final (send_birthday_reminders namesakes_env []))
       = [RList [Some ''jim@home.example'', Some ''rim@login.example'', Some ''kim@acme.example''],
          ROne (Some ''office@acme.example''), ROne (Some ''office@acme.example'')]
   \<and> map mail_persons (final (send_birthday_reminders namesakes_env []))
       = [[to_person alex_a, to_person alex_b], [], []]
   \<and> map mail_reminder_text (final (send_birthday_reminders namesakes_env []))
       = [''Today is Alex Kim & Alex Kim's birthday '' @ party_popper,
          ''Today is 's birthday '' @ party_popper,
          ''Today is 's birthday '' @ party_popper]"
  by code_simp

subsection \<open>Work anniversaries\<close>

lemma comma_sep_single: "comma_sep [x] w = x"
  by (simp add: comma_sep_def)

lemma length_one_conv: "length xs = Suc 0 \<Longrightarrow> xs = [hd xs]"
  by (cases xs) auto

text \<open>
  C5. In the reminder text and in the message, every person stands with the name
  followed by "completed n years", where n is the current year minus the year of the
  person's date of joining; for a person who joined in 2019, in 2024, the text is
  "completed 5 years".
\<close>

theorem anniversary_years_completed:
  "get_work_anniversary_reminder_text_and_message E persons =
     (''Today '' @ comma_sep (map (spec_years_text (year (today E))) persons) ''&''
        @ '' at our Company! '' @ party_popper,
      ''A friendly reminder of an important date for our team.<br>Everyone, let'' @ right_quote
        @ ''s congratulate '' @ comma_sep (map (spec_years_text (year (today E))) persons) ''&''
        @ '' on their work anniversary!'')
   \<and> (year (today E) = 2024 \<and> year (date_of_joining p) = 2019 \<longrightarrow>
        spec_years_text (year (today E)) p = name p @ '' completed 5 years'')"
proof -
  have one: "length persons = 1 \<Longrightarrow>
      comma_sep (map (spec_years_text (year (today E))) persons) ''&''
        = spec_years_text (year (today E)) (hd persons)"
  proof -
    assume "length persons = 1"
    then have "persons = [hd persons]" by (simp add: length_one_conv)
    then have "map (spec_years_text (year (today E))) persons
        = [spec_years_text (year (today E)) (hd persons)]"
      by (metis list.simps(8,9))
    then show ?thesis by (simp add: comma_sep_single)
  qed
  have five: "str_int 5 = ''5''"
    by (simp add: str_int_def str_nat.simps digit_char_def)
  have y: "year (today E) = 2024 \<and> year (date_of_joining p) = 2019 \<longrightarrow>
        spec_years_text (year (today E)) p = name p @ '' completed 5 years''"
    by (simp add: spec_years_text_def five)
  have t: "get_work_anniversary_reminder_text_and_message E persons =
     (''Today '' @ comma_sep (map (spec_years_text (year (today E))) persons) ''&''
        @ '' at our Company! '' @ party_popper,
      ''A friendly reminder of an important date for our team.<br>Everyone, let'' @ right_quote
        @ ''s congratulate '' @ comma_sep (map (spec_years_text (year (today E))) persons) ''&''
        @ '' on their work anniversary!'')"
  proof (cases "length persons = 1")
    case True
    show ?thesis
      unfolding get_work_anniversary_reminder_text_and_message_def Let_def one[OF True]
      using True by (simp add: spec_years_text_def)
  next
    case False
    have m: "map (\<lambda>person. name person @ '' completed ''
              @ str_int (year (today E) - year (date_of_joining person)) @ '' years'') persons
          = map (spec_years_text (year (today E))) persons"
      by (simp add: spec_years_text_def)
    show ?thesis
      unfolding get_work_anniversary_reminder_text_and_message_def Let_def m
      using False by simp
  qed
  show ?thesis using t y by (rule conjI)
qed

theorem anniversary_years_completed_witness:
  "year (today (sample_env None)) = 2024
   \<and> year (date_of_joining (to_person jim)) = 2019
   \<and> spec_years_text (year (today (sample_env None))) (to_person jim) = ''Jim completed 5 years''
   \<and> fst (get_work_anniversary_reminder_text_and_message (sample_env None) [to_person jim])
       = ''Today Jim completed 5 years at our Company! '' @ party_popper"
proof -
  have a: "year (today (sample_env None)) = 2024"
    by (simp add: sample_env_def)
  have b: "year (date_of_joining (to_person jim)) = 2019" "name (to_person jim) = ''Jim''"
    by (simp_all add: to_person_def jim_def)
  show ?thesis
    using anniversary_years_completed[of "sample_env None" "[to_person jim]" "to_person jim"] a b
    by (simp add: comma_sep_single)
qed

subsection \<open>Advance holiday reminders\<close>

text \<open>
  C6. The weekly window of the sample day, 2024-01-15, runs from 2024-01-16 to
  2024-01-22, as claimed. The monthly window is never computed: \<open>add_days\<close> is called
  without a number of days and raises, so the function raises for the frequency
  "Monthly" on every day.
\<close>

theorem monthly_window_raises:
  "advance_window (sample_env None) ''Weekly''
      = Inr (Some (\<lparr>year = 2024, month = 1, day = 16\<rparr>, \<lparr>year = 2024, month = 1, day = 22\<rparr>))
   \<and> advance_window E ''Monthly'' = Inl TypeError
   \<and> send_advance_holiday_reminders E ''Monthly'' st = Raised TypeError st"
proof -
  have w: "advance_window (sample_env None) ''Weekly''
      = Inr (Some (\<lparr>year = 2024, month = 1, day = 16\<rparr>, \<lparr>year = 2024, month = 1, day = 22\<rparr>))"
    by code_simp
  have m: "advance_window E ''Monthly'' = Inl TypeError"
    by (simp add: advance_window_def add_days_def)
  show ?thesis
    by (simp add: w m send_advance_holiday_reminders_def)
qed

lemma advance_step_ignores_employee:
  "advance_step E start_date end_date employee st = advance_step E start_date end_date employee' st"
  unfolding advance_step_def send_holidays_reminder_in_advance_def by (rule refl)

text \<open>
  C7. The claim is that each holiday query is for the employee being processed. The
  weekly run of the sample day issues three queries, one in each pass of the loop; every
  one has the two dates of the window as its only positional arguments, and none names
  an employee.
\<close>

theorem holiday_query_without_employee:
  "snd (final (send_advance_holiday_reminders (sample_env None) ''Weekly'' ([], [])))
     = replicate 3 \<lparr>q_positional = [ArgDate \<lparr>year = 2024, month = 1, day = 16\<rparr>,
                                     ArgDate \<lparr>year = 2024, month = 1, day = 22\<rparr>],
                     q_only_non_weekly = True, q_raise_exception = False\<rparr>"
  by code_simp

text \<open>
  C9. For every employee and every list of holidays,
  \<open>send_holidays_reminder_in_advance\<close> returns normally and leaves the outbox and the
  query log as they were.
\<close>

theorem advance_send_is_noop:
  "send_holidays_reminder_in_advance employee holidays st = Done st"
  by (simp add: send_holidays_reminder_in_advance_def)

text \<open>Hence no advance run ever puts a mail into the outbox.\<close>

lemma advance_step_outbox:
  "fst (final (advance_step E start_date end_date employee st)) = fst st"
  by (simp add: advance_step_def send_holidays_reminder_in_advance_def Let_def
      split: sum.splits option.splits)

lemma advance_loop_outbox:
  "fst (final (advance_loop E start_date end_date es st)) = fst st"
proof (induction es arbitrary: st)
  case Nil
  then show ?case by simp
next
  case (Cons employee es)
  show ?case
    using advance_step_outbox[of E start_date end_date employee st] Cons.IH
    by (cases "advance_step E start_date end_date employee st") simp_all
qed

lemma advance_run_sends_nothing:
  "fst (final (send_advance_holiday_reminders E frequency st)) = fst st"
  by (simp add: send_advance_holiday_reminders_def advance_loop_outbox
      split: sum.splits option.splits prod.splits)

subsection \<open>Failures\<close>

lemma holiday_loop_append:
  "holiday_loop E (xs @ ys) out =
     (case holiday_loop E xs out of Done out' \<Rightarrow> holiday_loop E ys out' | Raised e out' \<Rightarrow> Raised e out')"
  by (induction xs arbitrary: out) (simp_all split: outcome.splits)

lemma birthday_loop_append:
  "birthday_loop E (xs @ ys) out =
     (case birthday_loop E xs out of Done out' \<Rightarrow> birthday_loop E ys out' | Raised e out' \<Rightarrow> Raised e out')"
  by (induction xs arbitrary: out) (simp_all split: outcome.splits)

text \<open>What makes a step raise: a failing store, or a failing mail sender.\<close>

lemma holiday_step_store_raises:
  "is_holiday E employee = Inl e \<Longrightarrow> holiday_step E employee out = Raised e out"
  by (simp add: holiday_step_def)

lemma birthday_step_store_raises:
  "get_all_employee_emails E c = Inl e \<Longrightarrow> birthday_step E (c, ps) out = Raised e out"
  by (simp add: birthday_step_def)

lemma sendmail_raises:
  "sendmail_error E m = Some e \<Longrightarrow> sendmail E m out = Raised e out"
  by (simp add: sendmail_def)

text \<open>Every step and every loop only appends to the outbox.\<close>

lemma sendmail_extends: "\<exists>new. final (sendmail E m out) = out @ new"
  by (simp add: sendmail_def split: option.splits)

lemma holiday_step_extends: "\<exists>new. final (holiday_step E employee out) = out @ new"
  using sendmail_extends
  by (auto simp: holiday_step_def send_holiday_reminder_to_employee_def split: sum.splits)

lemma holiday_loop_extends: "\<exists>new. final (holiday_loop E es out) = out @ new"
proof (induction es arbitrary: out)
  case Nil
  then show ?case by simp
next
  case (Cons employee es)
  obtain n1 where n1: "final (holiday_step E employee out) = out @ n1"
    using holiday_step_extends by blast
  show ?case
  proof (cases "holiday_step E employee out")
    case (Done out')
    then have "out' = out @ n1" using n1 by simp
    moreover obtain n2 where "final (holiday_loop E es out') = out' @ n2"
      using Cons.IH by blast
    ultimately show ?thesis using Done by simp
  next
    case (Raised e out')
    then show ?thesis using n1 by simp
  qed
qed

lemma shared_birthday_loop_extends:
  "\<exists>new. final (shared_birthday_loop E ps rest out) = out @ new"
proof (induction rest arbitrary: out)
  case Nil
  then show ?case by simp
next
  case (Cons person rest)
  define m where "m = birthday_shared_mail ps person"
  have step: "shared_birthday_loop E ps (person # rest) out =
      (case sendmail E m out of Done out' \<Rightarrow> shared_birthday_loop E ps rest out'
       | Raised e out' \<Rightarrow> Raised e out')"
    by (simp add: m_def birthday_shared_mail_def send_birthday_reminder_def Let_def
        split: prod.splits)
  obtain n1 where n1: "final (sendmail E m out) = out @ n1"
    using sendmail_extends by blast
  show ?case
  proof (cases "sendmail E m out")
    case (Done out')
    then have "out' = out @ n1" using n1 by simp
    moreover obtain n2 where "final (shared_birthday_loop E ps rest out') = out' @ n2"
      using Cons.IH by blast
    ultimately show ?thesis using Done step by simp
  next
    case (Raised e out')
    then show ?thesis using n1 step by simp
  qed
qed

lemma birthday_step_extends: "\<exists>new. final (birthday_step E item out) = out @ new"
proof -
  obtain c ps where item: "item = (c, ps)" by (cases item)
  show ?thesis
  proof (cases "get_all_employee_emails E c")
    case (Inl e)
    then show ?thesis by (simp add: item birthday_step_def)
  next
    case (Inr emails)
    define m where "m = birthday_group_mail emails ps"
    have step: "birthday_step E item out =
        (case sendmail E m out of
           Raised e out' \<Rightarrow> Raised e out'
         | Done out' \<Rightarrow> if length ps > 1 then shared_birthday_loop E ps ps out' else Done out')"
      using Inr
      by (simp add: item birthday_step_def m_def birthday_group_mail_def send_birthday_reminder_def
          Let_def split: prod.splits)
    obtain n1 where n1: "final (sendmail E m out) = out @ n1"
      using sendmail_extends by blast
    show ?thesis
    proof (cases "sendmail E m out")
      case (Done out')
      then have o: "out' = out @ n1" using n1 by simp
      obtain n2 where "final (shared_birthday_loop E ps ps out') = out' @ n2"
        using shared_birthday_loop_extends by blast
      then show ?thesis using Done step o by simp
    next
      case (Raised e out')
      then show ?thesis using n1 step by simp
    qed
  qed
qed

lemma birthday_loop_extends: "\<exists>new. final (birthday_loop E g out) = out @ new"
proof (induction g arbitrary: out)
  case Nil
  then show ?case by simp
next
  case (Cons item g)
  obtain n1 where n1: "final (birthday_step E item out) = out @ n1"
    using birthday_step_extends by blast
  show ?case
  proof (cases "birthday_step E item out")
    case (Done out')
    then have "out' = out @ n1" using n1 by simp
    moreover obtain n2 where "final (birthday_loop E g out') = out' @ n2"
      using Cons.IH by blast
    ultimately show ?thesis using Done by simp
  next
    case (Raised e out')
    then show ?thesis using n1 by simp
  qed
qed

lemma holiday_failure_outbox:
  assumes "holiday_loop E es1 out = Done out1" "holiday_step E employee out1 = Raised err out2"
  shows "\<exists>new. out2 = out @ new"
proof -
  obtain n1 where "final (holiday_loop E es1 out) = out @ n1"
    using holiday_loop_extends by blast
  moreover obtain n2 where "final (holiday_step E employee out1) = out1 @ n2"
    using holiday_step_extends by blast
  ultimately show ?thesis using assms by simp
qed

lemma birthday_failure_outbox:
  assumes "birthday_loop E g1 out = Done out1" "birthday_step E item out1 = Raised err out2"
  shows "\<exists>new. out2 = out @ new"
proof -
  obtain n1 where "final (birthday_loop E g1 out) = out @ n1"
    using birthday_loop_extends by blast
  moreover obtain n2 where "final (birthday_step E item out1) = out1 @ n2"
    using birthday_step_extends by blast
  ultimately show ?thesis using assms by simp
qed

text \<open>
  The claim C8 fails on the sample day with the failing store: the holiday store raises
  for Rim, the second employee; the run raises that error after Jim's mail, and Dim, for
  whom today is a holiday too, gets no mail.
\<close>

theorem holiday_store_failure_crashes_run:
  "is_holiday failing_env ''HR-EMP-00002'' = Inl DataStoreError
   \<and> is_holiday failing_env ''HR-EMP-00003'' = Inr (True, [''Founders Day''])
   \<and> send_holiday_reminders failing_env []
       = Raised DataStoreError [holiday_mail (Some ''jim@home.example'') [''Founders Day'']]"
  by code_simp

text \<open>
  C8, as amended. A failure in the processing of one employee (holiday run) or of one
  company (birthday run, when it is not stopped) is not caught: the run stops there and
  raises that error; the outbox is as the failing step left it, the outbox of the start
  with the mails sent since, and the employees and companies that follow are not
  processed.
\<close>

theorem failure_stops_the_run:
  "(get_all_employees E = es1 @ employee # es2
      \<and> holiday_loop E es1 out = Done out1
      \<and> holiday_step E employee out1 = Raised err out2
      \<longrightarrow> send_holiday_reminders E out = Raised err out2 \<and> (\<exists>new. out2 = out @ new))
   \<and> (int_or (check_setting E ''stop_birthday_reminders'') 0 = 0
      \<and> get_employees_who_are_born_today E = Some (g1 @ item # g2)
      \<and> birthday_loop E g1 out = Done out1
      \<and> birthday_step E item out1 = Raised err out2
      \<longrightarrow> send_birthday_reminders E out = Raised err out2 \<and> (\<exists>new. out2 = out @ new))"
  using holiday_failure_outbox[of E es1 out out1 employee err out2]
    birthday_failure_outbox[of E g1 out out1 item err out2]
  by (simp add: holiday_flag_ignored holiday_loop_append birthday_loop_append
      send_birthday_reminders_def)

theorem failure_stops_the_run_witness:
  "send_holiday_reminders failing_env []
       = Raised DataStoreError [holiday_mail (Some ''jim@home.example'') [''Founders Day'']]
   \<and> send_birthday_reminders failing_env [] = Raised DataStoreError []"
proof -
  have a: "get_all_employees failing_env = [''HR-EMP-00001''] @ ''HR-EMP-00002'' # [''HR-EMP-00003'']"
    by code_simp
  have b: "holiday_loop failing_env [''HR-EMP-00001''] []
      = Done [holiday_mail (Some ''jim@home.example'') [''Founders Day'']]"
    by code_simp
  have c: "holiday_step failing_env ''HR-EMP-00002'' [holiday_mail (Some ''jim@home.example'') [''Founders Day'']]
      = Raised DataStoreError [holiday_mail (Some ''jim@home.example'') [''Founders Day'']]"
    by code_simp
  have d: "int_or (check_setting failing_env ''stop_birthday_reminders'') 0 = 0"
    by code_simp
  have e: "get_employees_who_are_born_today failing_env
      = Some ([] @ (Some ''Acme'', [to_person jim, to_person rim]) # [])"
    by code_simp
  have f: "birthday_step failing_env (Some ''Acme'', [to_person jim, to_person rim]) []
      = Raised DataStoreError []"
    by code_simp
  have g: "birthday_loop failing_env [] [] = Done []"
    by simp
  show ?thesis
    using failure_stops_the_run[of failing_env "[''HR-EMP-00001'']" "''HR-EMP-00002''"
        "[''HR-EMP-00003'']" "[]"
        "[holiday_mail (Some ''jim@home.example'') [''Founders Day'']]" DataStoreError
        "[holiday_mail (Some ''jim@home.example'') [''Founders Day'']]"]
      failure_stops_the_run[of failing_env _ _ _ "[]" "[]" DataStoreError "[]" "[]"
        "(Some ''Acme'', [to_person jim, to_person rim])" "[]"]
      a b c d e f g
    by simp
qed

end
